theory Spec2Isabelle
  imports Main
begin

section \<open>The tag resource of silly-blog\<close>

text \<open>
  The development follows \<^verbatim>\<open>silly_blog/app/resources/tag.py\<close>: the two
  marshmallow schemas and the five handlers of \<^verbatim>\<open>TagResource\<close>. The handlers are
  modelled after the decorators \<^verbatim>\<open>auth.login_required\<close> and
  \<^verbatim>\<open>envelope_json_required\<close> have let the request through.
\<close>

subsection \<open>Tags, query parameters, responses\<close>

text \<open>
  Modelled from the spec: \<^verbatim>\<open>silly_blog.app.models.Tag\<close> is not among the
  sources. The spec gives a tag the columns id, name, created_at and updated_at; the id is
  a string, as the route \<^verbatim>\<open>/tags/<string:tag_id>\<close> has it, and timestamps are
  integers (seconds). \<^verbatim>\<open>to_dict\<close> is the identity on this record.
\<close>

record tag =
  tag_id :: string
  name :: string
  created_at :: int
  updated_at :: int

text \<open>\<^verbatim>\<open>request.args\<close>: each parameter is absent (\<open>None\<close>) or a string.\<close>

record args =
  q_name :: "string option"
  q_since :: "string option"
  q_sort :: "string option"
  q_direction :: "string option"
  q_page :: "string option"
  q_pagesize :: "string option"

text \<open>
  The message of an error response is a literal, a format string with one
  \<^verbatim>\<open>%r\<close> together with its argument (\<^verbatim>\<open>"Unknown sort %r" % sort\<close>), or
  the error dictionary of a schema.
\<close>

datatype message =
    Text string
  | PercentR string string
  | FieldErrors "(string \<times> string list) list"

text \<open>
  \<^verbatim>\<open>make_error_response(status, message, code)\<close> is kept as its arguments; the
  other constructors are the three success values the handlers return.
\<close>

datatype response =
    ErrorResponse int message "string option"
  | TagsResponse "tag list" nat
  | TagResponse tag
  | NoContent

subsection \<open>Python helpers\<close>

text \<open>\<^verbatim>\<open>if x:\<close> on an optional string: neither \<^verbatim>\<open>None\<close> nor empty.\<close>

definition truthy :: "string option \<Rightarrow> bool" where
  "truthy x = (case x of None \<Rightarrow> False | Some s \<Rightarrow> s \<noteq> [])"

text \<open>\<^verbatim>\<open>w in s\<close> on strings.\<close>

fun startswith :: "string \<Rightarrow> string \<Rightarrow> bool" where
  "startswith [] s = True"
| "startswith (w # ws) [] = False"
| "startswith (w # ws) (c # cs) = (w = c \<and> startswith ws cs)"

fun contains :: "string \<Rightarrow> string \<Rightarrow> bool" where
  "contains w [] = (w = [])"
| "contains w (c # cs) = (startswith w (c # cs) \<or> contains w cs)"

text \<open>\<^verbatim>\<open>str.lower\<close>, on the ASCII letters.\<close>

definition lower_char :: "char \<Rightarrow> char" where
  "lower_char c =
     (let n = (of_char c :: nat) in if 65 \<le> n \<and> n \<le> 90 then char_of (n + 32) else c)"

definition lower :: "string \<Rightarrow> string" where
  "lower s = map lower_char s"

text \<open>
  \<^verbatim>\<open>int(s)\<close> on a string: surrounding whitespace is dropped, one sign may come
  first, then decimal digits, where single underscores may separate digits. \<open>None\<close> is
  \<^verbatim>\<open>ValueError\<close>. A character is a code point below 256; the digits and the
  whitespace of Unicode beyond that are outside the model. Whitespace is what C's
  \<^verbatim>\<open>isspace\<close> takes as such, and the two Unicode spaces below 256 (code points 133
  and 160); the separators 28 to 31 are not dropped. The first argument is the
  interpreter's \<^verbatim>\<open>sys.int_max_str_digits\<close> (4300 unless configured, 0 for no limit
  and before Python 3.11): a string of more than 640 digits and of more digits than this
  limit is refused.
\<close>

definition is_space :: "char \<Rightarrow> bool" where
  "is_space c = ((of_char c :: nat) \<in> {9, 10, 11, 12, 13, 32, 133, 160})"

definition is_digit :: "char \<Rightarrow> bool" where
  "is_digit c = (48 \<le> (of_char c :: nat) \<and> (of_char c :: nat) \<le> 57)"

definition digit_val :: "char \<Rightarrow> nat" where
  "digit_val c = (of_char c :: nat) - 48"

fun digits :: "nat \<Rightarrow> string \<Rightarrow> nat option" where
  "digits acc [] = Some acc"
| "digits acc [c] = (if is_digit c then Some (10 * acc + digit_val c) else None)"
| "digits acc (c # d # cs) =
     (if is_digit c then digits (10 * acc + digit_val c) (d # cs)
      else if c = CHR ''_'' \<and> is_digit d then digits (10 * acc + digit_val d) cs
      else None)"

definition unsigned :: "nat \<Rightarrow> string \<Rightarrow> nat option" where
  "unsigned max_str_digits s =
     (case s of [] \<Rightarrow> None
      | c # cs \<Rightarrow>
          if is_digit c then
            (case digits (digit_val c) cs of
               None \<Rightarrow> None
             | Some n \<Rightarrow>
                 if 0 < max_str_digits \<and> 640 < length (filter is_digit s) \<and>
                    max_str_digits < length (filter is_digit s)
                 then None else Some n)
          else None)"

definition strip :: "string \<Rightarrow> string" where
  "strip s = rev (dropWhile is_space (rev (dropWhile is_space s)))"

definition py_int :: "nat \<Rightarrow> string \<Rightarrow> int option" where
  "py_int max_str_digits s =
     (case strip s of [] \<Rightarrow> None
      | c # cs \<Rightarrow>
          if c = CHR ''-'' then map_option (\<lambda>n. - int n) (unsigned max_str_digits cs)
          else if c = CHR ''+'' then map_option int (unsigned max_str_digits cs)
          else map_option int (unsigned max_str_digits (c # cs)))"

subsection \<open>What the list operation takes from outside the source\<close>

text \<open>
  Modelled from the spec: the attributes of \<^verbatim>\<open>Tag\<close> that are instrumented
  (\<^verbatim>\<open>isinstance(getattr(Tag, sort, None), InstrumentedAttribute)\<close>) are its
  four columns.
\<close>

datatype column = Id | Name | CreatedAt | UpdatedAt

definition tag_attribute :: "string \<Rightarrow> column option" where
  "tag_attribute sort_name =
     (if sort_name = ''id'' then Some Id
      else if sort_name = ''name'' then Some Name
      else if sort_name = ''created_at'' then Some CreatedAt
      else if sort_name = ''updated_at'' then Some UpdatedAt
      else None)"

text \<open>
  The handler leaves several decisions to the libraries and to the database engine. They
  are parameters of the model, and the theorems on the list operation hold for all their
  values.
  \<^descr> \<open>parse_isotime\<close> belongs to \<^verbatim>\<open>silly_blog.contrib.utils\<close>, which is not
    among the sources; \<open>Inl\<close> carries the text of its \<^verbatim>\<open>ValueError\<close>.
  \<^descr> \<open>unary_other\<close> says for a name other than \<^verbatim>\<open>asc\<close> and
    \<^verbatim>\<open>desc\<close> whether \<^verbatim>\<open>getattr(sort_attribute, name)()\<close> returns a
    \<^verbatim>\<open>UnaryExpression\<close>: the source asks SQLAlchemy, by reflection, and keeps no
    list of its own.
  \<^descr> \<open>order_other\<close> is the engine's answer to \<^verbatim>\<open>ORDER BY\<close> with such an
    expression: the comparison it sorts by, or \<open>None\<close> when it refuses the statement.
  \<^descr> \<open>like_eq\<close> is the comparison of a pattern character with a character of the
    name in the engine's \<^verbatim>\<open>LIKE\<close> (exact under a case-sensitive collation,
    blind to the case of ASCII letters under the defaults of SQLite and MySQL), and
    \<open>backslash_escape\<close> says whether a backslash in the pattern escapes the next
    character (MySQL and PostgreSQL) or stands for itself (SQLite, standard SQL).
  \<^descr> \<open>int_max_str_digits\<close> is the interpreter's limit on the digits that
    \<^verbatim>\<open>int\<close> reads.
  \<^descr> \<open>limit_other\<close> is the engine's answer to an \<^verbatim>\<open>OFFSET\<close> and a
    \<^verbatim>\<open>LIMIT\<close> of which one lies outside \<open>0 \<dots> 2\<^sup>6\<^sup>3 - 1\<close>: how many
    rows it skips and how many it returns at most (\<open>None\<close>: all that are left), or
    \<open>None\<close> when the engine or its driver raises.
\<close>

record env =
  parse_isotime :: "string \<Rightarrow> string + int"
  unary_other :: "string \<Rightarrow> bool"
  order_other :: "column \<Rightarrow> string \<Rightarrow> (tag \<Rightarrow> tag \<Rightarrow> bool) option"
  like_eq :: "char \<Rightarrow> char \<Rightarrow> bool"
  backslash_escape :: bool
  int_max_str_digits :: nat
  limit_other :: "int \<Rightarrow> int \<Rightarrow> (nat \<times> nat option) option"

subsection \<open>The query: filter, order, count, offset, limit\<close>

text \<open>
  \<^verbatim>\<open>Tag.name.like(pattern)\<close> is the engine's \<^verbatim>\<open>LIKE\<close>, called with no
  \<^verbatim>\<open>ESCAPE\<close> clause: \<^verbatim>\<open>%\<close> stands for any run of characters,
  \<^verbatim>\<open>_\<close> for any one character. Where the engine escapes with a backslash, the
  character after it stands for itself; a backslash that ends the pattern stands for
  itself too (the patterns of this handler end with \<^verbatim>\<open>%\<close>). Every other
  character matches what \<open>eq\<close> relates it to.
\<close>

fun like :: "(char \<Rightarrow> char \<Rightarrow> bool) \<Rightarrow> bool \<Rightarrow> string \<Rightarrow> string \<Rightarrow> bool" where
  "like eq bs [] [] = True"
| "like eq bs [] (c # cs) = False"
| "like eq bs (p # ps) [] = (p = CHR ''%'' \<and> like eq bs ps [])"
| "like eq bs (p # ps) (c # cs) =
     (if bs \<and> p = CHR 0x5C then
        (case ps of
           [] \<Rightarrow> eq p c \<and> cs = []
         | q # qs \<Rightarrow> eq q c \<and> like eq bs qs cs)
      else if p = CHR ''%'' then like eq bs ps (c # cs) \<or> like eq bs (p # ps) cs
      else (p = CHR ''_'' \<or> eq p c) \<and> like eq bs ps cs)"

definition name_filter :: "env \<Rightarrow> string option \<Rightarrow> tag \<Rightarrow> bool" where
  "name_filter e n t =
     (case n of None \<Rightarrow> True
      | Some s \<Rightarrow> like (like_eq e) (backslash_escape e) (CHR ''%'' # s @ [CHR ''%'']) (name t))"

definition since_filter :: "int option \<Rightarrow> tag \<Rightarrow> bool" where
  "since_filter since t = (case since of None \<Rightarrow> True | Some ts \<Rightarrow> ts \<le> updated_at t)"

text \<open>
  \<^verbatim>\<open>getattr(sort_attribute, direction)()\<close> with the test that follows it.
  \<^verbatim>\<open>asc\<close> and \<^verbatim>\<open>desc\<close> are methods of every column and return a unary
  expression; for any other name SQLAlchemy decides. \<open>None\<close> covers the three ways the
  source rejects a name: the attribute is missing (\<^verbatim>\<open>AttributeError\<close>), the
  call fails (\<^verbatim>\<open>TypeError\<close>), or its result is no unary expression.
\<close>

datatype modifier = Asc | Desc | Other string

definition unary_method :: "env \<Rightarrow> string \<Rightarrow> modifier option" where
  "unary_method e direction =
     (if direction = ''asc'' then Some Asc
      else if direction = ''desc'' then Some Desc
      else if unary_other e direction then Some (Other direction)
      else None)"

text \<open>Strings are ordered by character code, shorter prefix first.\<close>

fun str_le :: "string \<Rightarrow> string \<Rightarrow> bool" where
  "str_le [] s = True"
| "str_le (c # cs) [] = False"
| "str_le (c # cs) (d # ds) =
     ((of_char c :: nat) < of_char d \<or> (c = d \<and> str_le cs ds))"

fun column_le :: "column \<Rightarrow> tag \<Rightarrow> tag \<Rightarrow> bool" where
  "column_le Id a b = str_le (tag_id a) (tag_id b)"
| "column_le Name a b = str_le (name a) (name b)"
| "column_le CreatedAt a b = (created_at a \<le> created_at b)"
| "column_le UpdatedAt a b = (updated_at a \<le> updated_at b)"

text \<open>
  \<^verbatim>\<open>ORDER BY\<close> as a stable insertion sort by a comparison. For another unary
  expression the engine gives the comparison, or refuses: then the first statement the
  handler executes, \<^verbatim>\<open>query.count()\<close>, raises.
\<close>

fun insert_by :: "('a \<Rightarrow> 'a \<Rightarrow> bool) \<Rightarrow> 'a \<Rightarrow> 'a list \<Rightarrow> 'a list" where
  "insert_by le x [] = [x]"
| "insert_by le x (y # ys) = (if le x y then x # y # ys else y # insert_by le x ys)"

definition sort_by :: "('a \<Rightarrow> 'a \<Rightarrow> bool) \<Rightarrow> 'a list \<Rightarrow> 'a list" where
  "sort_by le xs = foldr (insert_by le) xs []"

definition order_by :: "env \<Rightarrow> column \<times> modifier \<Rightarrow> tag list \<Rightarrow> tag list option" where
  "order_by e sort_exp rows =
     (case sort_exp of
        (c, Asc) \<Rightarrow> Some (sort_by (column_le c) rows)
      | (c, Desc) \<Rightarrow> Some (sort_by (\<lambda>a b. column_le c b a) rows)
      | (c, Other d) \<Rightarrow>
          (case order_other e c d of
             None \<Rightarrow> None
           | Some le \<Rightarrow> Some (sort_by le rows)))"

text \<open>
  \<^verbatim>\<open>query.offset(offset).limit(pagesize)\<close>. The offset is never negative when
  it gets here. Within \<open>0 \<dots> 2\<^sup>6\<^sup>3 - 1\<close> every engine skips \<open>offset\<close> rows and
  returns at most \<open>pagesize\<close>; a negative or a larger number is handed to the engine as
  it is, and the engine decides.
\<close>

definition offset_limit :: "env \<Rightarrow> int \<Rightarrow> int \<Rightarrow> tag list \<Rightarrow> tag list option" where
  "offset_limit e offset pagesize rows =
     (if 0 \<le> pagesize \<and> pagesize < 2 ^ 63 \<and> offset < 2 ^ 63
      then Some (take (nat pagesize) (drop (nat offset) rows))
      else (case limit_other e offset pagesize of
              None \<Rightarrow> None
            | Some (skip, None) \<Rightarrow> Some (drop skip rows)
            | Some (skip, Some n) \<Rightarrow> Some (take n (drop skip rows))))"

subsection \<open>GET\<close>

text \<open>
  \<open>None\<close> as the value of the handler is an exception that leaves it; the framework
  then answers for it.
\<close>

definition get_by_id :: "tag list \<Rightarrow> string \<Rightarrow> response" where
  "get_by_id rows tid =
     (case find (\<lambda>t. tag_id t = tid) rows of
        None \<Rightarrow> ErrorResponse 404 (PercentR ''Tag %r not found'' tid) None
      | Some t \<Rightarrow> TagResponse t)"

text \<open>The list branch of \<^verbatim>\<open>get\<close>, one definition for each block of the source.\<close>

definition parse_since ::
  "(string \<Rightarrow> string + int) \<Rightarrow> string option \<Rightarrow> response + int option" where
  "parse_since parse since =
     (case since of None \<Rightarrow> Inr None
      | Some s \<Rightarrow>
          (case parse s of
             Inl ex \<Rightarrow> Inl (ErrorResponse 400 (Text ex) None)
           | Inr ts \<Rightarrow> Inr (Some ts)))"

definition sort_expression :: "env \<Rightarrow> args \<Rightarrow> response + column \<times> modifier" where
  "sort_expression e a =
     (let sort_name = (case q_sort a of None \<Rightarrow> ''updated_at'' | Some s \<Rightarrow> s) in
      case tag_attribute sort_name of
        None \<Rightarrow> Inl (ErrorResponse 400 (PercentR ''Unknown sort %r'' sort_name) None)
      | Some sort_attribute \<Rightarrow>
          (let direction = (case q_direction a of None \<Rightarrow> ''desc'' | Some d \<Rightarrow> d) in
           case unary_method e direction of
             None \<Rightarrow> Inl (ErrorResponse 400 (PercentR ''Unknown direction %r'' direction) None)
           | Some m \<Rightarrow> Inr (sort_attribute, m)))"

text \<open>\<open>Inr None\<close>: the engine raises on the offset or the limit.\<close>

definition paginate :: "env \<Rightarrow> args \<Rightarrow> tag list \<Rightarrow> response + tag list option" where
  "paginate e a query =
     (case (q_page a, q_pagesize a) of
        (Some page, Some pagesize) \<Rightarrow>
          if page \<noteq> [] \<and> pagesize \<noteq> [] then
            (case py_int (int_max_str_digits e) page of
               None \<Rightarrow> Inl (ErrorResponse 400 (PercentR ''Unknown page %r'' page) None)
             | Some page \<Rightarrow>
                 (case py_int (int_max_str_digits e) pagesize of
                    None \<Rightarrow>
                      Inl (ErrorResponse 400 (PercentR ''Unknown pagesize %r'' pagesize) None)
                  | Some pagesize \<Rightarrow>
                      (let offset = (page - 1) * pagesize;
                           offset = (if offset < 0 then 0 else offset)
                       in Inr (offset_limit e offset pagesize query))))
          else Inr (Some query)
      | _ \<Rightarrow> Inr (Some query))"

definition list_tags :: "env \<Rightarrow> tag list \<Rightarrow> args \<Rightarrow> response option" where
  "list_tags e rows a =
     (let query = filter (name_filter e (q_name a)) rows in
      case parse_since (parse_isotime e) (q_since a) of
        Inl r \<Rightarrow> Some r
      | Inr since \<Rightarrow>
          (let query = filter (since_filter since) query in
           case sort_expression e a of
             Inl r \<Rightarrow> Some r
           | Inr sort_exp \<Rightarrow>
               (case order_by e sort_exp query of
                  None \<Rightarrow> None
                | Some query \<Rightarrow>
                    (let total = length query in
                     case paginate e a query of
                       Inl r \<Rightarrow> Some r
                     | Inr None \<Rightarrow> None
                     | Inr (Some tags) \<Rightarrow> Some (TagsResponse tags total)))))"

definition get :: "env \<Rightarrow> tag list \<Rightarrow> string option \<Rightarrow> args \<Rightarrow> response option" where
  "get e rows tid a =
     (case tid of
        None \<Rightarrow> list_tags e rows a
      | Some i \<Rightarrow> if i \<noteq> [] then Some (get_by_id rows i) else list_tags e rows a)"

subsection \<open>Request bodies and the two schemas\<close>

text \<open>
  \<^verbatim>\<open>g.tag\<close> is the dictionary under the key \<^verbatim>\<open>tag\<close> of the request's
  JSON body. Of a JSON value the schemas only ask whether it is null, a string, or
  something else.
\<close>

datatype jvalue = JNull | JString string | JOther

text \<open>
  \<^verbatim>\<open>fields.Str(validate=Length(min=1, max=64))\<close> on a value that is present,
  in marshmallow's order: null, type, validator. \<open>Inl\<close> is the entry of
  \<^verbatim>\<open>result.errors\<close>.
\<close>

definition deserialize_name :: "jvalue \<Rightarrow> (string \<times> string list) list + string" where
  "deserialize_name v =
     (case v of
        JNull \<Rightarrow> Inl [(''name'', [''Field may not be null.''])]
      | JOther \<Rightarrow> Inl [(''name'', [''Not a valid string.''])]
      | JString x \<Rightarrow>
          if 1 \<le> length x \<and> length x \<le> 64 then Inr x
          else Inl [(''name'', [''Length must be between 1 and 64.''])])"

text \<open>
  \<^verbatim>\<open>CreateTagSchema\<close> requires the key \<^verbatim>\<open>name\<close>;
  \<^verbatim>\<open>UpdateTagSchema\<close> does not, and loads an empty dictionary (\<open>None\<close>) when
  it is absent. Keys a schema does not declare are dropped.
\<close>

definition post_schema_load ::
  "(string \<rightharpoonup> jvalue) \<Rightarrow> (string \<times> string list) list + string" where
  "post_schema_load g_tag =
     (case g_tag ''name'' of
        None \<Rightarrow> Inl [(''name'', [''Missing data for required field.''])]
      | Some v \<Rightarrow> deserialize_name v)"

definition put_schema_load ::
  "(string \<rightharpoonup> jvalue) \<Rightarrow> (string \<times> string list) list + string option" where
  "put_schema_load g_tag =
     (case g_tag ''name'' of
        None \<Rightarrow> Inr None
      | Some v \<Rightarrow>
          (case deserialize_name v of Inl errors \<Rightarrow> Inl errors | Inr x \<Rightarrow> Inr (Some x)))"

subsection \<open>The store and its session\<close>

text \<open>
  \<^verbatim>\<open>sqlalchemy.exc\<close>: \<^verbatim>\<open>IntegrityError\<close> is a subclass of
  \<^verbatim>\<open>DatabaseError\<close>; \<open>OperationalError\<close> stands for the subclasses of
  \<^verbatim>\<open>DatabaseError\<close> that are no integrity error. Each carries the driver's text
  (\<^verbatim>\<open>str(ex.orig)\<close>) and \<^verbatim>\<open>ex.code\<close>.
\<close>

datatype db_error = IntegrityError string string | OperationalError string string

fun orig :: "db_error \<Rightarrow> string" where
  "orig (IntegrityError reason c) = reason"
| "orig (OperationalError reason c) = reason"

fun code :: "db_error \<Rightarrow> string" where
  "code (IntegrityError reason c) = c"
| "code (OperationalError reason c) = c"

text \<open>
  The committed rows; the work \<^verbatim>\<open>db.session\<close> holds for the next flush;
  whether the session waits for \<^verbatim>\<open>rollback()\<close> after a failed flush (SQLAlchemy
  refuses to use it until then); and what \<^verbatim>\<open>LOG.exception\<close> has written.
\<close>

datatype pending = Insert tag | Update tag | Delete tag

record store =
  rows :: "tag list"
  session :: "pending list"
  needs_rollback :: bool
  logged :: "string list"

text \<open>
  What the handler cannot decide is a parameter: a failure the engine reports at commit
  for a reason other than the name constraint, the driver's text and code for a violated
  name constraint, and the id and the time the store assigns.
\<close>

record engine =
  fault :: "db_error option"
  unique_reason :: string
  unique_code :: string
  new_id :: string
  now :: int

text \<open>
  Modelled from the spec: \<^verbatim>\<open>name\<close> is unique across all tags, and the store
  enforces it. A flushed statement that would give two rows one name is refused.
\<close>

fun flush_one :: "pending \<Rightarrow> tag list \<Rightarrow> tag list option" where
  "flush_one (Insert t) rs =
     (if list_ex (\<lambda>r. name r = name t) rs then None else Some (rs @ [t]))"
| "flush_one (Update t) rs =
     (if list_ex (\<lambda>r. tag_id r \<noteq> tag_id t \<and> name r = name t) rs then None
      else Some (map (\<lambda>r. if tag_id r = tag_id t then t else r) rs))"
| "flush_one (Delete t) rs = Some (filter (\<lambda>r. tag_id r \<noteq> tag_id t) rs)"

fun flush :: "pending list \<Rightarrow> tag list \<Rightarrow> tag list option" where
  "flush [] rs = Some rs"
| "flush (p # ps) rs = (case flush_one p rs of None \<Rightarrow> None | Some rs' \<Rightarrow> flush ps rs')"

definition session_add :: "tag \<Rightarrow> store \<Rightarrow> store" where
  "session_add t s = s\<lparr>session := session s @ [Insert t]\<rparr>"

text \<open>
  \<^verbatim>\<open>db.session.commit()\<close>: \<open>Some ex\<close> is the exception it raises. SQLAlchemy
  has then rolled the database transaction back and thrown away the work of the session:
  the rows are as before, nothing is pending, and the session waits for
  \<^verbatim>\<open>rollback()\<close>.
\<close>

definition session_commit :: "engine \<Rightarrow> store \<Rightarrow> db_error option \<times> store" where
  "session_commit eng s =
     (case fault eng of
        Some ex \<Rightarrow> (Some ex, s\<lparr>session := [], needs_rollback := True\<rparr>)
      | None \<Rightarrow>
          (case flush (session s) (rows s) of
             None \<Rightarrow>
               (Some (IntegrityError (unique_reason eng) (unique_code eng)),
                s\<lparr>session := [], needs_rollback := True\<rparr>)
           | Some rs \<Rightarrow> (None, s\<lparr>rows := rs, session := []\<rparr>)))"

definition session_rollback :: "store \<Rightarrow> store" where
  "session_rollback s = s\<lparr>session := [], needs_rollback := False\<rparr>"

definition LOG_exception :: "string \<Rightarrow> store \<Rightarrow> store" where
  "LOG_exception msg s = s\<lparr>logged := logged s @ [msg]\<rparr>"

definition query_get :: "store \<Rightarrow> string \<Rightarrow> tag option" where
  "query_get s tid = find (\<lambda>t. tag_id t = tid) (rows s)"

text \<open>
  Modelled from the spec: \<^verbatim>\<open>Tag.from_dict\<close>, \<^verbatim>\<open>Tag.update\<close> and
  \<^verbatim>\<open>Tag.delete\<close> belong to \<^verbatim>\<open>silly_blog.app.models\<close>, which is not
  among the sources. A new tag gets its id and both timestamps from the store; an update
  applies the fields it is given and commits; a delete removes the row and commits.
\<close>

definition from_dict :: "engine \<Rightarrow> string \<Rightarrow> tag" where
  "from_dict eng v = \<lparr>tag_id = new_id eng, name = v, created_at = now eng, updated_at = now eng\<rparr>"

definition tag_update ::
  "engine \<Rightarrow> tag \<Rightarrow> string option \<Rightarrow> store \<Rightarrow> db_error option \<times> tag \<times> store" where
  "tag_update eng t data s =
     (case data of
        None \<Rightarrow> (fst (session_commit eng s), t, snd (session_commit eng s))
      | Some v \<Rightarrow>
          (let t' = t\<lparr>name := v, updated_at := now eng\<rparr>;
               s' = s\<lparr>session := session s @ [Update t']\<rparr>
           in (fst (session_commit eng s'), t', snd (session_commit eng s'))))"

definition tag_delete :: "engine \<Rightarrow> tag \<Rightarrow> store \<Rightarrow> db_error option \<times> store" where
  "tag_delete eng t s = session_commit eng (s\<lparr>session := session s @ [Delete t]\<rparr>)"

subsection \<open>POST, PUT, DELETE\<close>

text \<open>
  A handler returns a response (\<open>Inr\<close>) or lets an exception leave it (\<open>Inl\<close>), and
  hands on the store.
\<close>

definition is_duplicate :: "string \<Rightarrow> bool" where
  "is_duplicate reason =
     list_ex (\<lambda>word. contains word (lower reason)) [''duplicate'', ''unique'']"

text \<open>The body of \<^verbatim>\<open>except IntegrityError as ex\<close>, the same in both handlers.\<close>

definition except_IntegrityError :: "db_error \<Rightarrow> store \<Rightarrow> response \<times> store" where
  "except_IntegrityError ex s =
     (let s = session_rollback s; reason = orig ex in
      if is_duplicate reason then (ErrorResponse 409 (Text reason) None, s)
      else (ErrorResponse 500 (Text ''DB Error'') (Some (code ex)),
            LOG_exception ''An unknown db error occurred'' s))"

definition post ::
  "engine \<Rightarrow> (string \<rightharpoonup> jvalue) \<Rightarrow> store \<Rightarrow> (db_error + response) \<times> store" where
  "post eng g_tag s =
     (case post_schema_load g_tag of
        Inl errors \<Rightarrow> (Inr (ErrorResponse 400 (FieldErrors errors) None), s)
      | Inr data \<Rightarrow>
          (let t = from_dict eng data in
           case session_commit eng (session_add t s) of
             (None, s') \<Rightarrow> (Inr (TagResponse t), s')
           | (Some ex, s') \<Rightarrow>
               (case ex of
                  IntegrityError reason c \<Rightarrow>
                    (Inr (fst (except_IntegrityError ex s')), snd (except_IntegrityError ex s'))
                | OperationalError reason c \<Rightarrow> (Inl ex, s'))))"

definition put ::
  "engine \<Rightarrow> string \<Rightarrow> (string \<rightharpoonup> jvalue) \<Rightarrow> store \<Rightarrow> (db_error + response) \<times> store" where
  "put eng tid g_tag s =
     (case put_schema_load g_tag of
        Inl errors \<Rightarrow> (Inr (ErrorResponse 400 (FieldErrors errors) None), s)
      | Inr data \<Rightarrow>
          (case query_get s tid of
             None \<Rightarrow> (Inr (ErrorResponse 404 (PercentR ''Tag %r not found'' tid) None), s)
           | Some t \<Rightarrow>
               (case tag_update eng t data s of
                  (None, t', s') \<Rightarrow> (Inr (TagResponse t'), s')
                | (Some ex, t', s') \<Rightarrow>
                    (case ex of
                       IntegrityError reason c \<Rightarrow>
                         (Inr (fst (except_IntegrityError ex s')),
                          snd (except_IntegrityError ex s'))
                     | OperationalError reason c \<Rightarrow> (Inl ex, s')))))"

definition delete ::
  "engine \<Rightarrow> string \<Rightarrow> store \<Rightarrow> (db_error + response) \<times> store" where
  "delete eng tid s =
     (case query_get s tid of
        None \<Rightarrow> (Inr (ErrorResponse 404 (PercentR ''Tag %r not found'' tid) None), s)
      | Some t \<Rightarrow>
          (case tag_delete eng t s of
             (None, s') \<Rightarrow> (Inr NoContent, s')
           | (Some ex, s') \<Rightarrow>
               (Inr (ErrorResponse 500 (Text ''DB Error'') (Some (code ex))),
                LOG_exception ''An unknown db error occurred'' s')))"

subsection \<open>Sample requests and stores\<close>

text \<open>
  Concrete inputs on which the statements below are evaluated. The sample engine behaves
  as SQLite does: \<^verbatim>\<open>LIKE\<close> is blind to the case of ASCII letters and has no escape
  character, a negative \<^verbatim>\<open>LIMIT\<close> is no limit, a number from \<open>2\<^sup>6\<^sup>3\<close> on
  is refused, and of the other unary expressions it orders by \<^verbatim>\<open>NULLS FIRST\<close>,
  \<^verbatim>\<open>NULLS LAST\<close> and the negated column.
\<close>

definition no_args :: args where
  "no_args = \<lparr>q_name = None, q_since = None, q_sort = None, q_direction = None,
              q_page = None, q_pagesize = None\<rparr>"

definition page_args :: "string \<Rightarrow> string \<Rightarrow> args" where
  "page_args page pagesize = no_args\<lparr>q_page := Some page, q_pagesize := Some pagesize\<rparr>"

definition sample_tag :: "nat \<Rightarrow> tag" where
  "sample_tag i = \<lparr>tag_id = replicate (Suc i) CHR ''t'', name = replicate (Suc i) CHR ''n'',
                   created_at = int i, updated_at = int i\<rparr>"

definition sample_rows :: "tag list" where
  "sample_rows = map sample_tag [0..<25]"

definition sample_isotime :: "string \<Rightarrow> string + int" where
  "sample_isotime s = (case py_int 0 s of None \<Rightarrow> Inl ''Invalid time'' | Some ts \<Rightarrow> Inr ts)"

definition sample_env :: env where
  "sample_env =
     \<lparr>parse_isotime = sample_isotime,
      unary_other = (\<lambda>d. d \<in> set [''nullsfirst'', ''nullslast'', ''distinct'', ''__neg__'',
                                  ''__invert__'', ''any_'', ''all_'']),
      order_other = (\<lambda>c d. if d = ''nullsfirst'' \<or> d = ''nullslast'' then Some (column_le c)
                            else if d = ''__neg__'' then Some (\<lambda>a b. column_le c b a)
                            else None),
      like_eq = (\<lambda>p c. lower_char p = lower_char c),
      backslash_escape = False,
      int_max_str_digits = 4300,
      limit_other = (\<lambda>offset pagesize.
                       if pagesize < 0 \<and> offset < 2 ^ 63 then Some (nat offset, None)
                       else None)\<rparr>"

definition sample_engine :: engine where
  "sample_engine = \<lparr>fault = None, unique_reason = ''UNIQUE constraint failed: tag.name'',
                     unique_code = ''gkpj'', new_id = ''7'', now = 100\<rparr>"

definition sample_store :: store where
  "sample_store = \<lparr>rows = [sample_tag 0, sample_tag 1], session = [],
                    needs_rollback = False, logged = []\<rparr>"

definition sample_body :: "string \<Rightarrow> (string \<rightharpoonup> jvalue)" where
  "sample_body v = [''name'' \<mapsto> JString v]"


definition lost_connection :: db_error where
  "lost_connection = OperationalError ''server closed the connection unexpectedly'' ''e3q8''"

section \<open>Properties of the list operation\<close>

subsection \<open>Patterns and ordering\<close>

lemma like_percent:
  "like eq bs (CHR ''%'' # ps) s \<longleftrightarrow> (\<exists>u v. s = u @ v \<and> like eq bs ps v)"
proof (induction s)
  case Nil
  then show ?case by simp
next
  case (Cons c cs)
  have "like eq bs (CHR ''%'' # ps) (c # cs)
      \<longleftrightarrow> like eq bs ps (c # cs) \<or> like eq bs (CHR ''%'' # ps) cs"
    by simp
  also have "\<dots> \<longleftrightarrow> like eq bs ps (c # cs) \<or> (\<exists>u v. cs = u @ v \<and> like eq bs ps v)"
    using Cons.IH by simp
  also have "\<dots> \<longleftrightarrow> (\<exists>u v. c # cs = u @ v \<and> like eq bs ps v)"
    by (auto simp: Cons_eq_append_conv)
  finally show ?case .
qed

lemma like_literal:
  "\<forall>x\<in>set n. x \<noteq> CHR ''%'' \<and> x \<noteq> CHR ''_'' \<and> (bs \<longrightarrow> x \<noteq> CHR 0x5C) \<Longrightarrow>
   like eq bs (n @ ps) s \<longleftrightarrow> (\<exists>m v. s = m @ v \<and> list_all2 eq n m \<and> like eq bs ps v)"
proof (induction n arbitrary: s)
  case Nil
  then show ?case by simp
next
  case (Cons x xs)
  show ?case
  proof (cases s)
    case Nil
    with Cons.prems show ?thesis by (auto simp: list_all2_Cons1)
  next
    case (Cons c cs)
    have "like eq bs ((x # xs) @ ps) (c # cs) \<longleftrightarrow> eq x c \<and> like eq bs (xs @ ps) cs"
      using Cons.prems by auto
    also have "\<dots> \<longleftrightarrow> eq x c \<and> (\<exists>m v. cs = m @ v \<and> list_all2 eq xs m \<and> like eq bs ps v)"
      using Cons.IH Cons.prems by simp
    also have "\<dots> \<longleftrightarrow> (\<exists>m v. c # cs = m @ v \<and> list_all2 eq (x # xs) m \<and> like eq bs ps v)"
      by (auto simp: list_all2_Cons1 Cons_eq_append_conv)
    finally show ?thesis using Cons by simp
  qed
qed

lemma like_any: "like eq bs [CHR ''%''] s"
  by (induction s) auto

lemma like_substring:
  assumes "\<forall>x\<in>set n. x \<noteq> CHR ''%'' \<and> x \<noteq> CHR ''_'' \<and> (bs \<longrightarrow> x \<noteq> CHR 0x5C)"
  shows "like eq bs (CHR ''%'' # n @ [CHR ''%'']) s
     \<longleftrightarrow> (\<exists>u m v. s = u @ m @ v \<and> list_all2 eq n m)"
proof -
  have "like eq bs (CHR ''%'' # n @ [CHR ''%'']) s
      \<longleftrightarrow> (\<exists>u w. s = u @ w \<and> like eq bs (n @ [CHR ''%'']) w)"
    by (rule like_percent)
  also have "\<dots> \<longleftrightarrow> (\<exists>u w. s = u @ w \<and> (\<exists>m v. w = m @ v \<and> list_all2 eq n m))"
    by (simp only: like_literal [OF assms] like_any simp_thms)
  also have "\<dots> \<longleftrightarrow> (\<exists>u m v. s = u @ m @ v \<and> list_all2 eq n m)"
    by blast
  finally show ?thesis .
qed

lemma length_insert_by: "length (insert_by le x xs) = Suc (length xs)"
  by (induction xs) auto

lemma length_sort_by: "length (sort_by le xs) = length xs"
  by (induction xs) (auto simp: sort_by_def length_insert_by)

lemma set_insert_by: "set (insert_by le x xs) = insert x (set xs)"
  by (induction xs) auto

lemma set_sort_by: "set (sort_by le xs) = set xs"
  by (induction xs) (auto simp: sort_by_def set_insert_by)

lemma length_order_by: "order_by e x xs = Some ys \<Longrightarrow> length ys = length xs"
  by (cases x) (auto simp: order_by_def length_sort_by split: modifier.splits option.splits)

lemma set_order_by: "order_by e x xs = Some ys \<Longrightarrow> set ys = set xs"
  by (cases x) (auto simp: order_by_def set_sort_by split: modifier.splits option.splits)

lemma py_int_empty: "py_int m [] = None"
  by (simp add: py_int_def strip_def)

subsection \<open>The stages of the list operation\<close>

lemma list_tags_cases:
  "list_tags e rs a =
     (case parse_since (parse_isotime e) (q_since a) of
        Inl r \<Rightarrow> Some r
      | Inr since \<Rightarrow>
          (case sort_expression e a of
             Inl r \<Rightarrow> Some r
           | Inr x \<Rightarrow>
               (case order_by e x
                       (filter (\<lambda>t. name_filter e (q_name a) t \<and> since_filter since t) rs) of
                  None \<Rightarrow> None
                | Some srt \<Rightarrow>
                    (case paginate e a srt of
                       Inl r \<Rightarrow> Some r
                     | Inr None \<Rightarrow> None
                     | Inr (Some tags) \<Rightarrow> Some (TagsResponse tags (length srt))))))"
  by (simp add: list_tags_def Let_def split: sum.splits option.splits)

lemma parse_since_error:
  "parse_since pt x = Inl r \<Longrightarrow> \<exists>ex. r = ErrorResponse 400 (Text ex) None"
  by (auto simp: parse_since_def split: option.splits sum.splits)

lemma sort_expression_error:
  "sort_expression e a = Inl r \<Longrightarrow>
     \<exists>v. r = ErrorResponse 400 (PercentR ''Unknown sort %r'' v) None \<or>
         r = ErrorResponse 400 (PercentR ''Unknown direction %r'' v) None"
  by (auto simp: sort_expression_def Let_def split: option.splits)

lemma paginate_error:
  "paginate e a q = Inl r \<Longrightarrow>
     truthy (q_page a) \<and> truthy (q_pagesize a) \<and>
     (\<exists>v. r = ErrorResponse 400 (PercentR ''Unknown page %r'' v) None \<or>
          r = ErrorResponse 400 (PercentR ''Unknown pagesize %r'' v) None)"
  by (auto simp: paginate_def truthy_def Let_def split: option.splits if_splits)

lemma list_tags_success:
  assumes "list_tags e rs a = Some (TagsResponse tags n)"
  shows "\<exists>since x srt. parse_since (parse_isotime e) (q_since a) = Inr since \<and>
     sort_expression e a = Inr x \<and>
     order_by e x (filter (\<lambda>t. name_filter e (q_name a) t \<and> since_filter since t) rs)
       = Some srt \<and>
     paginate e a srt = Inr (Some tags) \<and>
     n = length (filter (\<lambda>t. name_filter e (q_name a) t \<and> since_filter since t) rs)"
proof (cases "parse_since (parse_isotime e) (q_since a)")
  case (Inl r)
  with assms parse_since_error [OF Inl] show ?thesis by (auto simp: list_tags_cases)
next
  case since: (Inr since)
  show ?thesis
  proof (cases "sort_expression e a")
    case (Inl r)
    with assms since sort_expression_error [OF Inl] show ?thesis
      by (auto simp: list_tags_cases)
  next
    case x: (Inr x)
    show ?thesis
    proof (cases "order_by e x
          (filter (\<lambda>t. name_filter e (q_name a) t \<and> since_filter since t) rs)")
      case None
      with assms since x show ?thesis by (simp add: list_tags_cases)
    next
      case srt: (Some srt)
      show ?thesis
      proof (cases "paginate e a srt")
        case (Inl r)
        with assms since x srt paginate_error [OF Inl] show ?thesis
          by (auto simp: list_tags_cases)
      next
        case (Inr ts)
        with assms since x srt length_order_by [OF srt] show ?thesis
          by (cases ts) (simp_all add: list_tags_cases)
      qed
    qed
  qed
qed

lemma sort_expression_page [simp]:
  "sort_expression e (a\<lparr>q_page := p, q_pagesize := ps\<rparr>) = sort_expression e a"
  by (simp add: sort_expression_def cong: option.case_cong)

lemma paginate_sort [simp]:
  "paginate e (a\<lparr>q_sort := x\<rparr>) q = paginate e a q"
  "paginate e (a\<lparr>q_direction := y\<rparr>) q = paginate e a q"
  by (simp_all add: paginate_def)

lemma sort_expression_default:
  "q_sort a = None \<Longrightarrow>
     sort_expression e (a\<lparr>q_sort := Some ''updated_at''\<rparr>) = sort_expression e a"
  "q_direction a = None \<Longrightarrow>
     sort_expression e (a\<lparr>q_direction := Some ''desc''\<rparr>) = sort_expression e a"
  by (simp_all add: sort_expression_def Let_def cong: option.case_cong)

lemma list_tags_sort_default:
  "q_sort a = None \<Longrightarrow>
     list_tags e rs a = list_tags e rs (a\<lparr>q_sort := Some ''updated_at''\<rparr>)"
  by (simp add: list_tags_cases sort_expression_default cong: sum.case_cong option.case_cong)

lemma list_tags_direction_default:
  "q_direction a = None \<Longrightarrow>
     list_tags e rs a = list_tags e rs (a\<lparr>q_direction := Some ''desc''\<rparr>)"
  by (simp add: list_tags_cases sort_expression_default cong: sum.case_cong option.case_cong)

lemma offset_limit_subset:
  assumes "offset_limit e off ps q = Some tags"
  shows "set tags \<subseteq> set q"
proof -
  have td: "set (take n (drop k q)) \<subseteq> set q" for n k
    using set_take_subset [of n "drop k q"] set_drop_subset [of k q] by blast
  from assms consider n k where "tags = take n (drop k q)" | k where "tags = drop k q"
    by (auto simp: offset_limit_def split: if_splits option.splits prod.splits)
  then show ?thesis
  proof cases
    case 1
    then show ?thesis using td by simp
  next
    case 2
    then show ?thesis using set_drop_subset by simp
  qed
qed

lemma paginate_subset:
  assumes "paginate e a q = Inr (Some tags)"
  shows "set tags \<subseteq> set q"
proof (cases "truthy (q_page a) \<and> truthy (q_pagesize a)")
  case False
  with assms have "tags = q"
    by (auto simp: paginate_def truthy_def split: option.splits if_splits)
  then show ?thesis by simp
next
  case True
  then obtain page pagesize where pp: "q_page a = Some page" "q_pagesize a = Some pagesize"
    "page \<noteq> []" "pagesize \<noteq> []"
    by (auto simp: truthy_def split: option.splits)
  with assms obtain off ps where "offset_limit e off ps q = Some tags"
    by (auto simp: paginate_def Let_def split: option.splits)
  then show ?thesis by (rule offset_limit_subset)
qed

subsection \<open>The total\<close>

text \<open>
  C1. When the list operation succeeds, \<open>total\<close> is the number of stored tags that pass
  the name filter and the since filter, counted before offset and limit; and whatever
  \<^verbatim>\<open>page\<close> and \<^verbatim>\<open>pagesize\<close> are replaced by, a successful response carries
  the same total.
\<close>

theorem total_counts_filtered_rows:
  assumes "list_tags e rs a = Some (TagsResponse tags n)"
  shows "(\<exists>since. parse_since (parse_isotime e) (q_since a) = Inr since \<and>
            n = length (filter (\<lambda>t. name_filter e (q_name a) t \<and> since_filter since t) rs)) \<and>
         (\<forall>p ps tags' n'.
            list_tags e rs (a\<lparr>q_page := p, q_pagesize := ps\<rparr>) = Some (TagsResponse tags' n')
            \<longrightarrow> n' = n)"
proof -
  from list_tags_success [OF assms] obtain since where
    s: "parse_since (parse_isotime e) (q_since a) = Inr since" and
    t: "n = length (filter (\<lambda>t. name_filter e (q_name a) t \<and> since_filter since t) rs)"
    by blast
  have first: "\<exists>since. parse_since (parse_isotime e) (q_since a) = Inr since \<and>
      n = length (filter (\<lambda>t. name_filter e (q_name a) t \<and> since_filter since t) rs)"
    using s t by blast
  have second: "n' = n"
    if "list_tags e rs (a\<lparr>q_page := p, q_pagesize := ps\<rparr>) = Some (TagsResponse tags' n')"
    for p ps tags' n'
    using list_tags_success [OF that] s t by auto
  show ?thesis using first second by blast
qed

theorem total_counts_filtered_rows_witness:
  "list_tags sample_env (map sample_tag [0, 1, 2]) (no_args\<lparr>q_name := Some ''nn''\<rparr>)
     = Some (TagsResponse (map sample_tag [2, 1]) 2) \<and>
   (\<exists>since. parse_since (parse_isotime sample_env) (q_since (no_args\<lparr>q_name := Some ''nn''\<rparr>))
              = Inr since \<and>
      (2::nat) = length (filter (\<lambda>t. name_filter sample_env
                                       (q_name (no_args\<lparr>q_name := Some ''nn''\<rparr>)) t \<and>
                                  since_filter since t) (map sample_tag [0, 1, 2])))"
proof -
  have h: "list_tags sample_env (map sample_tag [0, 1, 2]) (no_args\<lparr>q_name := Some ''nn''\<rparr>)
     = Some (TagsResponse (map sample_tag [2, 1]) 2)"
    by code_simp
  show ?thesis using total_counts_filtered_rows [OF h] h by blast
qed

subsection \<open>The name filter\<close>

text \<open>
  C4, amended. A \<^verbatim>\<open>name\<close> parameter that contains neither \<^verbatim>\<open>%\<close> nor
  \<^verbatim>\<open>_\<close>, nor a backslash where the engine escapes with it, selects exactly the
  tags whose name contains a run of characters that the engine's \<^verbatim>\<open>LIKE\<close>
  takes, one by one, for the characters of the parameter: every returned tag is such a
  tag, and without a since filter and without pagination the returned tags are all of
  them. Whether the comparison sees the case of letters is the engine's collation; the
  handler sets none.
\<close>

theorem name_filter_substring:
  assumes "\<forall>c\<in>set v. c \<noteq> CHR ''%'' \<and> c \<noteq> CHR ''_'' \<and> (backslash_escape e \<longrightarrow> c \<noteq> CHR 0x5C)"
    and "q_name a = Some v"
  shows "(\<forall>t. name_filter e (q_name a) t
               \<longleftrightarrow> (\<exists>x m y. name t = x @ m @ y \<and> list_all2 (like_eq e) v m)) \<and>
         (\<forall>tags n. list_tags e rs a = Some (TagsResponse tags n) \<longrightarrow>
            set tags \<subseteq> {t \<in> set rs. \<exists>x m y. name t = x @ m @ y \<and> list_all2 (like_eq e) v m} \<and>
            (q_since a = None \<and> \<not> (truthy (q_page a) \<and> truthy (q_pagesize a)) \<longrightarrow>
               set tags
                 = {t \<in> set rs. \<exists>x m y. name t = x @ m @ y \<and> list_all2 (like_eq e) v m}))"
proof -
  have nf: "name_filter e (q_name a) t
      \<longleftrightarrow> (\<exists>x m y. name t = x @ m @ y \<and> list_all2 (like_eq e) v m)" for t
    using assms by (simp add: name_filter_def like_substring)
  have window: "set tags \<subseteq> set srt" if "paginate e a srt = Inr (Some tags)" for srt tags
    using that by (rule paginate_subset)
  have sub: "set tags \<subseteq> {t \<in> set rs. \<exists>x m y. name t = x @ m @ y \<and> list_all2 (like_eq e) v m}"
    if "list_tags e rs a = Some (TagsResponse tags n)" for tags n
  proof -
    from list_tags_success [OF that] obtain since x srt where
      o: "order_by e x (filter (\<lambda>t. name_filter e (q_name a) t \<and> since_filter since t) rs)
            = Some srt" and
      p: "paginate e a srt = Inr (Some tags)"
      by blast
    from window [OF p] set_order_by [OF o] show ?thesis by (auto simp: nf)
  qed
  have eq: "set tags = {t \<in> set rs. \<exists>x m y. name t = x @ m @ y \<and> list_all2 (like_eq e) v m}"
    if r: "list_tags e rs a = Some (TagsResponse tags n)" and "q_since a = None"
      and np: "\<not> (truthy (q_page a) \<and> truthy (q_pagesize a))" for tags n
  proof -
    from list_tags_success [OF r] obtain since x srt where
      s: "parse_since (parse_isotime e) (q_since a) = Inr since" and
      o: "order_by e x (filter (\<lambda>t. name_filter e (q_name a) t \<and> since_filter since t) rs)
            = Some srt" and
      p: "paginate e a srt = Inr (Some tags)"
      by blast
    from s \<open>q_since a = None\<close> have "since = None" by (simp add: parse_since_def)
    moreover from p np have "tags = srt"
      by (auto simp: paginate_def truthy_def split: option.splits if_splits)
    ultimately show ?thesis using set_order_by [OF o] by (auto simp: nf since_filter_def)
  qed
  show ?thesis
  proof (intro conjI allI impI)
    fix t
    show "name_filter e (q_name a) t
        \<longleftrightarrow> (\<exists>x m y. name t = x @ m @ y \<and> list_all2 (like_eq e) v m)"
      by (rule nf)
  next
    fix tags n
    assume "list_tags e rs a = Some (TagsResponse tags n)"
    then show "set tags
        \<subseteq> {t \<in> set rs. \<exists>x m y. name t = x @ m @ y \<and> list_all2 (like_eq e) v m}"
      by (rule sub)
  next
    fix tags n
    assume r: "list_tags e rs a = Some (TagsResponse tags n)"
      and c: "q_since a = None \<and> \<not> (truthy (q_page a) \<and> truthy (q_pagesize a))"
    from c have "q_since a = None" "\<not> (truthy (q_page a) \<and> truthy (q_pagesize a))"
      by simp_all
    then show "set tags
        = {t \<in> set rs. \<exists>x m y. name t = x @ m @ y \<and> list_all2 (like_eq e) v m}"
      by (rule eq [OF r])
  qed
qed

theorem name_filter_substring_witness:
  "list_tags sample_env (map sample_tag [0, 1, 2]) (no_args\<lparr>q_name := Some ''NN''\<rparr>)
     = Some (TagsResponse (map sample_tag [2, 1]) 2) \<and>
   set (map sample_tag [2, 1])
     = {t \<in> set (map sample_tag [0, 1, 2]).
          \<exists>x m y. name t = x @ m @ y \<and> list_all2 (like_eq sample_env) ''NN'' m}"
proof -
  have v: "\<forall>c\<in>set ''NN''. c \<noteq> CHR ''%'' \<and> c \<noteq> CHR ''_'' \<and>
             (backslash_escape sample_env \<longrightarrow> c \<noteq> CHR 0x5C)"
    by simp
  have a: "q_name (no_args\<lparr>q_name := Some ''NN''\<rparr>) = Some ''NN''"
    "q_since (no_args\<lparr>q_name := Some ''NN''\<rparr>) = None"
    "\<not> (truthy (q_page (no_args\<lparr>q_name := Some ''NN''\<rparr>)) \<and>
        truthy (q_pagesize (no_args\<lparr>q_name := Some ''NN''\<rparr>)))"
    by (simp_all add: no_args_def truthy_def)
  have h: "list_tags sample_env (map sample_tag [0, 1, 2]) (no_args\<lparr>q_name := Some ''NN''\<rparr>)
     = Some (TagsResponse (map sample_tag [2, 1]) 2)"
    by code_simp
  from name_filter_substring [OF v a(1), of "map sample_tag [0, 1, 2]"] a h
  show ?thesis by blast
qed

text \<open>
  As stated for every parameter value, C4 fails: the value is spliced into the
  \<^verbatim>\<open>LIKE\<close> pattern unescaped, so \<^verbatim>\<open>name=_\<close> returns a tag named
  \<^verbatim>\<open>nn\<close>, which contains no underscore.
\<close>

theorem wildcard_name_counterexample:
  "list_tags sample_env [sample_tag 1] (no_args\<lparr>q_name := Some ''_''\<rparr>)
     = Some (TagsResponse [sample_tag 1] 1) \<and>
   name (sample_tag 1) = ''nn'' \<and> \<not> contains ''_'' (name (sample_tag 1))"
  by code_simp

subsection \<open>Sort and direction\<close>

text \<open>
  C6, amended. For a list request whose \<^verbatim>\<open>since\<close> is absent or parses: a
  \<^verbatim>\<open>sort\<close> that names no column of \<^verbatim>\<open>Tag\<close> gives 400 with
  \<^verbatim>\<open>"Unknown sort %r" % sort\<close>. With a valid sort, the response is 400 with
  \<^verbatim>\<open>"Unknown direction %r" % direction\<close> exactly when \<^verbatim>\<open>direction\<close>
  names no argument-free method of the column that returns a unary expression:
  \<^verbatim>\<open>asc\<close> and \<^verbatim>\<open>desc\<close> are such methods, and so is every other name
  for which SQLAlchemy returns one. An omitted sort is \<^verbatim>\<open>updated_at\<close>, an
  omitted direction is \<^verbatim>\<open>desc\<close>.
\<close>

theorem sort_and_direction_checked:
  assumes "parse_since (parse_isotime e) (q_since a) = Inr since"
  shows "(let sort_name = (case q_sort a of None \<Rightarrow> ''updated_at'' | Some s \<Rightarrow> s);
              direction = (case q_direction a of None \<Rightarrow> ''desc'' | Some d \<Rightarrow> d)
          in (tag_attribute sort_name = None \<longrightarrow>
                list_tags e rs a
                  = Some (ErrorResponse 400 (PercentR ''Unknown sort %r'' sort_name) None)) \<and>
             (tag_attribute sort_name \<noteq> None \<and> direction \<noteq> ''asc'' \<and> direction \<noteq> ''desc'' \<and>
              \<not> unary_other e direction \<longrightarrow>
                list_tags e rs a
                  = Some (ErrorResponse 400 (PercentR ''Unknown direction %r'' direction) None)) \<and>
             (tag_attribute sort_name \<noteq> None \<and>
              (direction = ''asc'' \<or> direction = ''desc'' \<or> unary_other e direction) \<longrightarrow>
                list_tags e rs a
                  \<noteq> Some (ErrorResponse 400 (PercentR ''Unknown direction %r'' direction) None))) \<and>
         (q_sort a = None \<longrightarrow>
            list_tags e rs a = list_tags e rs (a\<lparr>q_sort := Some ''updated_at''\<rparr>)) \<and>
         (q_direction a = None \<longrightarrow>
            list_tags e rs a = list_tags e rs (a\<lparr>q_direction := Some ''desc''\<rparr>))"
proof -
  define s where "s = (case q_sort a of None \<Rightarrow> ''updated_at'' | Some s \<Rightarrow> s)"
  define d where "d = (case q_direction a of None \<Rightarrow> ''desc'' | Some d \<Rightarrow> d)"
  have se: "sort_expression e a =
      (case tag_attribute s of
         None \<Rightarrow> Inl (ErrorResponse 400 (PercentR ''Unknown sort %r'' s) None)
       | Some c \<Rightarrow>
           (case unary_method e d of
              None \<Rightarrow> Inl (ErrorResponse 400 (PercentR ''Unknown direction %r'' d) None)
            | Some m \<Rightarrow> Inr (c, m)))"
    by (simp add: sort_expression_def s_def d_def Let_def cong: option.case_cong)
  have one: "list_tags e rs a = Some (ErrorResponse 400 (PercentR ''Unknown sort %r'' s) None)"
    if "tag_attribute s = None"
    using that assms se by (simp add: list_tags_cases)
  have two: "list_tags e rs a
      = Some (ErrorResponse 400 (PercentR ''Unknown direction %r'' d) None)"
    if "tag_attribute s \<noteq> None" "d \<noteq> ''asc''" "d \<noteq> ''desc''" "\<not> unary_other e d"
    using that assms se by (auto simp: list_tags_cases unary_method_def)
  have three: "list_tags e rs a
      \<noteq> Some (ErrorResponse 400 (PercentR ''Unknown direction %r'' d) None)"
    if att: "tag_attribute s \<noteq> None" and acc: "d = ''asc'' \<or> d = ''desc'' \<or> unary_other e d"
  proof -
    from acc have "unary_method e d \<noteq> None" by (auto simp: unary_method_def)
    with att se obtain x where x: "sort_expression e a = Inr x" by auto
    show ?thesis
    proof (cases "order_by e x
          (filter (\<lambda>t. name_filter e (q_name a) t \<and> since_filter since t) rs)")
      case None
      with assms x show ?thesis by (simp add: list_tags_cases)
    next
      case srt: (Some srt)
      show ?thesis
      proof (cases "paginate e a srt")
        case (Inl r)
        with assms x srt paginate_error [OF Inl] show ?thesis
          by (auto simp: list_tags_cases)
      next
        case (Inr ts)
        with assms x srt show ?thesis by (cases ts) (simp_all add: list_tags_cases)
      qed
    qed
  qed
  show ?thesis
    using one two three list_tags_sort_default [of a e rs] list_tags_direction_default [of a e rs]
    unfolding Let_def s_def [symmetric] d_def [symmetric] by blast
qed

theorem sort_and_direction_checked_witness:
  "list_tags sample_env sample_rows (no_args\<lparr>q_sort := Some ''bogus''\<rparr>)
     = Some (ErrorResponse 400 (PercentR ''Unknown sort %r'' ''bogus'') None) \<and>
   list_tags sample_env sample_rows (no_args\<lparr>q_direction := Some ''bogus''\<rparr>)
     = Some (ErrorResponse 400 (PercentR ''Unknown direction %r'' ''bogus'') None) \<and>
   list_tags sample_env sample_rows (no_args\<lparr>q_direction := Some ''asc''\<rparr>)
     \<noteq> Some (ErrorResponse 400 (PercentR ''Unknown direction %r'' ''asc'') None) \<and>
   list_tags sample_env sample_rows no_args
     = list_tags sample_env sample_rows (no_args\<lparr>q_sort := Some ''updated_at''\<rparr>) \<and>
   list_tags sample_env sample_rows no_args
     = list_tags sample_env sample_rows (no_args\<lparr>q_direction := Some ''desc''\<rparr>)"
proof -
  have s: "parse_since (parse_isotime sample_env) (q_since (no_args\<lparr>q_sort := Some ''bogus''\<rparr>))
      = Inr None"
    "parse_since (parse_isotime sample_env) (q_since (no_args\<lparr>q_direction := Some ''bogus''\<rparr>))
      = Inr None"
    "parse_since (parse_isotime sample_env) (q_since (no_args\<lparr>q_direction := Some ''asc''\<rparr>))
      = Inr None"
    "parse_since (parse_isotime sample_env) (q_since no_args) = Inr None"
    by (simp_all add: no_args_def parse_since_def)
  have t: "tag_attribute ''bogus'' = None" "tag_attribute ''updated_at'' \<noteq> None"
    "\<not> unary_other sample_env ''bogus''" "''bogus'' \<noteq> ''asc''" "''bogus'' \<noteq> ''desc''"
    by (simp_all add: tag_attribute_def sample_env_def)
  have q: "q_sort no_args = None" "q_direction no_args = None"
    by (simp_all add: no_args_def)
  note w1 = sort_and_direction_checked [OF s(1), of sample_rows, unfolded Let_def]
  note w2 = sort_and_direction_checked [OF s(2), of sample_rows, unfolded Let_def]
  note w3 = sort_and_direction_checked [OF s(3), of sample_rows, unfolded Let_def]
  note w4 = sort_and_direction_checked [OF s(4), of sample_rows, unfolded Let_def]
  have a: "list_tags sample_env sample_rows (no_args\<lparr>q_sort := Some ''bogus''\<rparr>)
     = Some (ErrorResponse 400 (PercentR ''Unknown sort %r'' ''bogus'') None)"
    using w1 [THEN conjunct1, THEN conjunct1] t by (simp add: no_args_def)
  have b: "list_tags sample_env sample_rows (no_args\<lparr>q_direction := Some ''bogus''\<rparr>)
     = Some (ErrorResponse 400 (PercentR ''Unknown direction %r'' ''bogus'') None)"
    using w2 [THEN conjunct1, THEN conjunct2, THEN conjunct1] t by (simp add: no_args_def)
  have b': "list_tags sample_env sample_rows (no_args\<lparr>q_direction := Some ''asc''\<rparr>)
     \<noteq> Some (ErrorResponse 400 (PercentR ''Unknown direction %r'' ''asc'') None)"
    using w3 [THEN conjunct1, THEN conjunct2, THEN conjunct2] t by (simp add: no_args_def)
  have c: "list_tags sample_env sample_rows no_args
     = list_tags sample_env sample_rows (no_args\<lparr>q_sort := Some ''updated_at''\<rparr>)"
    using w4 [THEN conjunct2, THEN conjunct1] q by blast
  have d: "list_tags sample_env sample_rows no_args
     = list_tags sample_env sample_rows (no_args\<lparr>q_direction := Some ''desc''\<rparr>)"
    using w4 [THEN conjunct2, THEN conjunct2] q by blast
  from a b b' c d show ?thesis by blast
qed

text \<open>
  As stated, C6 fails for a direction other than \<^verbatim>\<open>asc\<close> and
  \<^verbatim>\<open>desc\<close>: the source looks the direction up by reflection, and
  \<^verbatim>\<open>__neg__\<close> is a method of a column that returns a unary expression, so the
  request is answered with the rows, not with 400.
\<close>

theorem reflected_direction_counterexample:
  "list_tags sample_env [sample_tag 0] (no_args\<lparr>q_direction := Some ''__neg__''\<rparr>)
     = Some (TagsResponse [sample_tag 0] 1)"
  by code_simp

subsection \<open>Pagination\<close>

text \<open>
  C7, amended. When \<^verbatim>\<open>page\<close> and \<^verbatim>\<open>pagesize\<close> are both given and both
  parse as integers, \<open>pagesize\<close> and the offset \<open>(page - 1) * pagesize\<close> lie below
  \<open>2\<^sup>6\<^sup>3\<close>, \<open>pagesize\<close> is not negative, and the request passes the checks on
  \<^verbatim>\<open>since\<close>, \<^verbatim>\<open>sort\<close> and \<^verbatim>\<open>direction\<close> and the engine orders
  the rows, the response holds the filtered, sorted rows from that offset on, the offset
  raised to 0 when negative, at most \<open>pagesize\<close> of them, and the total of all filtered
  rows. With 25 matching rows, page 1 of size 10 is the first ten rows, page 3 of size 10
  the rows 21 to 25, both with total 25.
\<close>

theorem page_window:
  assumes "q_page a = Some page" and "q_pagesize a = Some pagesize"
    and "py_int (int_max_str_digits e) page = Some p"
    and "py_int (int_max_str_digits e) pagesize = Some ps"
    and "parse_since (parse_isotime e) (q_since a) = Inr since"
    and "sort_expression e a = Inr x"
    and "order_by e x (filter (\<lambda>t. name_filter e (q_name a) t \<and> since_filter since t) rs)
           = Some srt"
    and "0 \<le> ps" and "ps < 2 ^ 63" and "(p - 1) * ps < 2 ^ 63"
  shows "(let offset = (if (p - 1) * ps < 0 then 0 else (p - 1) * ps)
          in list_tags e rs a
               = Some (TagsResponse (take (nat ps) (drop (nat offset) srt)) (length srt)) \<and>
             (length srt = 25 \<and> p = 1 \<and> ps = 10 \<longrightarrow>
                list_tags e rs a = Some (TagsResponse (take 10 srt) 25)) \<and>
             (length srt = 25 \<and> p = 3 \<and> ps = 10 \<longrightarrow>
                list_tags e rs a = Some (TagsResponse (drop 20 srt) 25) \<and>
                length (drop 20 srt) = 5))"
proof -
  have ne: "page \<noteq> []" "pagesize \<noteq> []"
    using assms(3,4) by (auto simp: py_int_empty)
  have "list_tags e rs a =
      Some (TagsResponse
        (take (nat ps) (drop (nat (if (p - 1) * ps < 0 then 0 else (p - 1) * ps)) srt))
        (length srt))"
    using assms ne
    by (simp add: list_tags_cases paginate_def offset_limit_def Let_def)
  then show ?thesis by (auto simp: Let_def)
qed

theorem page_window_witness:
  "py_int (int_max_str_digits sample_env) ''3'' = Some 3 \<and>
   py_int (int_max_str_digits sample_env) ''10'' = Some 10 \<and>
   list_tags sample_env sample_rows (page_args ''3'' ''10'')
     = Some (TagsResponse (map sample_tag [4, 3, 2, 1, 0]) 25)"
proof -
  have p: "py_int (int_max_str_digits sample_env) ''3'' = Some 3"
    "py_int (int_max_str_digits sample_env) ''10'' = Some 10"
    by code_simp+
  have a: "q_page (page_args ''3'' ''10'') = Some ''3''"
    "q_pagesize (page_args ''3'' ''10'') = Some ''10''"
    by (simp_all add: page_args_def)
  have s: "parse_since (parse_isotime sample_env) (q_since (page_args ''3'' ''10'')) = Inr None"
    by (simp add: page_args_def no_args_def parse_since_def)
  have x: "sort_expression sample_env (page_args ''3'' ''10'') = Inr (UpdatedAt, Desc)"
    by code_simp
  have srt: "order_by sample_env (UpdatedAt, Desc)
      (filter (\<lambda>t. name_filter sample_env (q_name (page_args ''3'' ''10'')) t \<and>
                   since_filter None t) sample_rows) = Some (map sample_tag (rev [0..<25]))"
    by code_simp
  have d: "take (nat 10) (drop (nat 20) (map sample_tag (rev [0..<25])))
      = map sample_tag [4, 3, 2, 1, 0]"
    by code_simp
  have r: "(0::int) \<le> 10" "(10::int) < 2 ^ 63" "((3::int) - 1) * 10 < 2 ^ 63"
    by simp_all
  from page_window [OF a p s x srt r] d p show ?thesis
    by (simp add: Let_def)
qed

text \<open>
  As stated for all integers, C7 fails: the handler checks no sign and no size, and a
  negative \<^verbatim>\<open>pagesize\<close> reaches the engine as its \<^verbatim>\<open>LIMIT\<close>. An engine
  that takes a negative limit as no limit returns all three rows for
  \<^verbatim>\<open>page=1&pagesize=-1\<close>.
\<close>

theorem negative_pagesize_counterexample:
  "py_int (int_max_str_digits sample_env) ''1'' = Some 1 \<and>
   py_int (int_max_str_digits sample_env) ''-1'' = Some (- 1) \<and>
   list_tags sample_env (map sample_tag [0, 1, 2]) (page_args ''1'' ''-1'')
     = Some (TagsResponse (map sample_tag [2, 1, 0]) 3)"
  by code_simp

text \<open>
  C9. When \<^verbatim>\<open>page\<close> or \<^verbatim>\<open>pagesize\<close> is absent or empty, a request that
  passes the checks on \<^verbatim>\<open>since\<close>, \<^verbatim>\<open>sort\<close> and \<^verbatim>\<open>direction\<close>
  is answered with all filtered, sorted rows, unpaginated (and leaves the handler with the
  engine's exception where the engine refuses the ordering); and a response
  \<^verbatim>\<open>"Unknown page %r"\<close> or \<^verbatim>\<open>"Unknown pagesize %r"\<close> only occurs when both
  parameters are present and non-empty.
\<close>

theorem unpaginated_unless_both:
  "(\<not> (truthy (q_page a) \<and> truthy (q_pagesize a)) \<and>
      parse_since (parse_isotime e) (q_since a) = Inr since \<and> sort_expression e a = Inr x \<longrightarrow>
      (case order_by e x
              (filter (\<lambda>t. name_filter e (q_name a) t \<and> since_filter since t) rs) of
         None \<Rightarrow> list_tags e rs a = None
       | Some srt \<Rightarrow> list_tags e rs a = Some (TagsResponse srt (length srt)))) \<and>
   (list_tags e rs a = Some (ErrorResponse st (PercentR ''Unknown page %r'' v) c) \<or>
    list_tags e rs a = Some (ErrorResponse st (PercentR ''Unknown pagesize %r'' v) c) \<longrightarrow>
      truthy (q_page a) \<and> truthy (q_pagesize a))"
proof -
  have a: "case order_by e x
              (filter (\<lambda>t. name_filter e (q_name a) t \<and> since_filter since t) rs) of
         None \<Rightarrow> list_tags e rs a = None
       | Some srt \<Rightarrow> list_tags e rs a = Some (TagsResponse srt (length srt))"
    if "\<not> (truthy (q_page a) \<and> truthy (q_pagesize a))"
      "parse_since (parse_isotime e) (q_since a) = Inr since" "sort_expression e a = Inr x"
  proof -
    have "paginate e a q = Inr (Some q)" for q
      using that(1) by (auto simp: paginate_def truthy_def split: option.splits)
    with that show ?thesis by (simp add: list_tags_cases split: option.splits)
  qed
  have b: "truthy (q_page a) \<and> truthy (q_pagesize a)"
    if r: "list_tags e rs a = Some (ErrorResponse st (PercentR fmt v) c)"
      and fmt: "fmt = ''Unknown page %r'' \<or> fmt = ''Unknown pagesize %r''" for fmt
  proof (cases "parse_since (parse_isotime e) (q_since a)")
    case (Inl r')
    with r parse_since_error [OF Inl] show ?thesis by (auto simp: list_tags_cases)
  next
    case since: (Inr since')
    show ?thesis
    proof (cases "sort_expression e a")
      case (Inl r')
      with r fmt since sort_expression_error [OF Inl] show ?thesis
        by (auto simp: list_tags_cases)
    next
      case x: (Inr x')
      show ?thesis
      proof (cases "order_by e x'
            (filter (\<lambda>t. name_filter e (q_name a) t \<and> since_filter since' t) rs)")
        case None
        with r since x show ?thesis by (simp add: list_tags_cases)
      next
        case srt: (Some srt)
        show ?thesis
        proof (cases "paginate e a srt")
          case (Inl r')
          then show ?thesis using paginate_error by blast
        next
          case (Inr ts)
          with r since x srt show ?thesis by (cases ts) (simp_all add: list_tags_cases)
        qed
      qed
    qed
  qed
  show ?thesis using a b by blast
qed

theorem unpaginated_unless_both_witness:
  "list_tags sample_env (map sample_tag [0, 1, 2]) (no_args\<lparr>q_page := Some ''2''\<rparr>)
     = Some (TagsResponse (map sample_tag [2, 1, 0]) 3) \<and>
   list_tags sample_env (map sample_tag [0, 1, 2]) (page_args ''x'' ''10'')
     = Some (ErrorResponse 400 (PercentR ''Unknown page %r'' ''x'') None) \<and>
   truthy (q_page (page_args ''x'' ''10'')) \<and> truthy (q_pagesize (page_args ''x'' ''10''))"
proof -
  have n: "\<not> (truthy (q_page (no_args\<lparr>q_page := Some ''2''\<rparr>)) \<and>
              truthy (q_pagesize (no_args\<lparr>q_page := Some ''2''\<rparr>)))"
    by (simp add: no_args_def truthy_def)
  have s: "parse_since (parse_isotime sample_env) (q_since (no_args\<lparr>q_page := Some ''2''\<rparr>))
      = Inr None"
    by (simp add: no_args_def parse_since_def)
  have x: "sort_expression sample_env (no_args\<lparr>q_page := Some ''2''\<rparr>) = Inr (UpdatedAt, Desc)"
    by code_simp
  have srt: "order_by sample_env (UpdatedAt, Desc)
      (filter (\<lambda>t. name_filter sample_env (q_name (no_args\<lparr>q_page := Some ''2''\<rparr>)) t \<and>
                   since_filter None t)
         (map sample_tag [0, 1, 2])) = Some (map sample_tag [2, 1, 0])"
    by code_simp
  have bad: "list_tags sample_env (map sample_tag [0, 1, 2]) (page_args ''x'' ''10'')
     = Some (ErrorResponse 400 (PercentR ''Unknown page %r'' ''x'') None)"
    by code_simp
  note w1 = unpaginated_unless_both [where a = "no_args\<lparr>q_page := Some ''2''\<rparr>"
      and e = sample_env and since = None and x = "(UpdatedAt, Desc)"
      and rs = "map sample_tag [0, 1, 2]", THEN conjunct1]
  note w2 = unpaginated_unless_both [where a = "page_args ''x'' ''10''"
      and e = sample_env and rs = "map sample_tag [0, 1, 2]" and st = 400
      and v = "''x''" and c = None, THEN conjunct2]
  from w1 n s x have "case order_by sample_env (UpdatedAt, Desc)
      (filter (\<lambda>t. name_filter sample_env (q_name (no_args\<lparr>q_page := Some ''2''\<rparr>)) t \<and>
                   since_filter None t) (map sample_tag [0, 1, 2])) of
         None \<Rightarrow> list_tags sample_env (map sample_tag [0, 1, 2])
                   (no_args\<lparr>q_page := Some ''2''\<rparr>) = None
       | Some srt \<Rightarrow> list_tags sample_env (map sample_tag [0, 1, 2])
                       (no_args\<lparr>q_page := Some ''2''\<rparr>) = Some (TagsResponse srt (length srt))"
    by blast
  then have "list_tags sample_env (map sample_tag [0, 1, 2])
      (no_args\<lparr>q_page := Some ''2''\<rparr>) = Some (TagsResponse (map sample_tag [2, 1, 0]) 3)"
    unfolding srt by simp
  moreover from w2 bad have "truthy (q_page (page_args ''x'' ''10'')) \<and>
      truthy (q_pagesize (page_args ''x'' ''10''))"
    by blast
  ultimately show ?thesis using bad by blast
qed

section \<open>Properties of create, update and delete\<close>

subsection \<open>Failed commits and the integrity handler\<close>

lemma commit_failed_state:
  "fst (session_commit eng s) = Some ex \<Longrightarrow>
   snd (session_commit eng s) = s\<lparr>session := [], needs_rollback := True\<rparr>"
  by (auto simp: session_commit_def split: option.splits)

lemma except_unknown:
  "\<not> is_duplicate reason \<Longrightarrow>
   except_IntegrityError (IntegrityError reason c) s =
     (ErrorResponse 500 (Text ''DB Error'') (Some c),
      s\<lparr>session := [], needs_rollback := False,
        logged := logged s @ [''An unknown db error occurred'']\<rparr>)"
  by (simp add: except_IntegrityError_def session_rollback_def LOG_exception_def)

lemma except_duplicate:
  "is_duplicate reason \<Longrightarrow>
   except_IntegrityError (IntegrityError reason c) s =
     (ErrorResponse 409 (Text reason) None, s\<lparr>session := [], needs_rollback := False\<rparr>)"
  by (simp add: except_IntegrityError_def session_rollback_def)

lemma except_after_failure:
  "except_IntegrityError ex (s\<lparr>session := p, needs_rollback := b\<rparr>) = except_IntegrityError ex s"
  by (simp add: except_IntegrityError_def session_rollback_def LOG_exception_def Let_def)

lemma post_integrity:
  assumes "post_schema_load g = Inr v"
    and "fst (session_commit eng (session_add (from_dict eng v) s))
           = Some (IntegrityError reason c)"
  shows "post eng g s =
     (Inr (fst (except_IntegrityError (IntegrityError reason c) s)),
      snd (except_IntegrityError (IntegrityError reason c) s))"
proof -
  obtain r s' where c: "session_commit eng (session_add (from_dict eng v) s) = (r, s')"
    by (cases "session_commit eng (session_add (from_dict eng v) s)")
  with assms(2) have r: "r = Some (IntegrityError reason c)" by simp
  from c commit_failed_state [OF assms(2)]
  have s': "s' = s\<lparr>session := [], needs_rollback := True\<rparr>"
    by (simp add: session_add_def)
  show ?thesis using assms(1) c r by (simp add: post_def Let_def s' except_after_failure)
qed

lemma update_failed_state:
  "fst (tag_update eng t data s) = Some ex \<Longrightarrow>
   snd (snd (tag_update eng t data s)) = s\<lparr>session := [], needs_rollback := True\<rparr>"
  by (cases data) (auto simp: tag_update_def Let_def commit_failed_state)

lemma put_integrity:
  assumes "put_schema_load g = Inr data" and "query_get s tid = Some t"
    and "fst (tag_update eng t data s) = Some (IntegrityError reason c)"
  shows "put eng tid g s =
     (Inr (fst (except_IntegrityError (IntegrityError reason c) s)),
      snd (except_IntegrityError (IntegrityError reason c) s))"
proof -
  obtain r t' s' where c: "tag_update eng t data s = (r, t', s')"
    by (cases "tag_update eng t data s") auto
  with assms(3) have r: "r = Some (IntegrityError reason c)" by simp
  from c update_failed_state [OF assms(3)]
  have s': "s' = s\<lparr>session := [], needs_rollback := True\<rparr>" by simp
  show ?thesis using assms(1,2) c r by (simp add: put_def s' except_after_failure)
qed

text \<open>
  On an \<^verbatim>\<open>IntegrityError\<close> that is no duplicate, create and update roll back, log
  and return 500 with \<^verbatim>\<open>DB Error\<close> and the error's code.
\<close>

lemma integrity_error_without_duplicate:
  assumes "\<not> is_duplicate reason"
  shows "(post_schema_load g = Inr v \<and>
          fst (session_commit eng (session_add (from_dict eng v) s))
            = Some (IntegrityError reason c) \<longrightarrow>
          post eng g s =
            (Inr (ErrorResponse 500 (Text ''DB Error'') (Some c)),
             s\<lparr>session := [], needs_rollback := False,
               logged := logged s @ [''An unknown db error occurred'']\<rparr>)) \<and>
         (put_schema_load g = Inr data \<and> query_get s tid = Some t \<and>
          fst (tag_update eng t data s) = Some (IntegrityError reason c) \<longrightarrow>
          put eng tid g s =
            (Inr (ErrorResponse 500 (Text ''DB Error'') (Some c)),
             s\<lparr>session := [], needs_rollback := False,
               logged := logged s @ [''An unknown db error occurred'']\<rparr>))"
  using post_integrity [of g v eng s reason c] put_integrity [of g data s tid t eng reason c]
    assms
  by (simp add: except_unknown)

subsection \<open>Store errors that are no integrity error\<close>

text \<open>
  C2. The claim asks of create and update, for every store error that is no duplicate:
  rollback, a log entry, and 500 with \<^verbatim>\<open>DB Error\<close> and a code. On a
  \<^verbatim>\<open>DatabaseError\<close> that is no \<^verbatim>\<open>IntegrityError\<close>, here a lost
  connection, the code does none of it: \<^verbatim>\<open>post\<close> and \<^verbatim>\<open>put\<close> catch
  \<^verbatim>\<open>IntegrityError\<close> only, the exception leaves the handler, the session still
  waits for its rollback and nothing is logged. \<^verbatim>\<open>delete\<close>, which catches
  \<^verbatim>\<open>DatabaseError\<close>, answers the same error with 500, \<^verbatim>\<open>DB Error\<close> and
  the code.
\<close>

theorem post_put_miss_database_error:
  "post (sample_engine\<lparr>fault := Some lost_connection\<rparr>) (sample_body ''db'') sample_store
     = (Inl lost_connection, sample_store\<lparr>needs_rollback := True\<rparr>) \<and>
   put (sample_engine\<lparr>fault := Some lost_connection\<rparr>) ''t'' (sample_body ''db'') sample_store
     = (Inl lost_connection, sample_store\<lparr>needs_rollback := True\<rparr>) \<and>
   fst (delete (sample_engine\<lparr>fault := Some lost_connection\<rparr>) ''t'' sample_store)
     = Inr (ErrorResponse 500 (Text ''DB Error'') (Some ''e3q8''))"
  by (simp add: post_def put_def delete_def post_schema_load_def put_schema_load_def
      deserialize_name_def sample_body_def sample_engine_def sample_store_def
      session_commit_def session_add_def from_dict_def tag_update_def tag_delete_def
      query_get_def sample_tag_def lost_connection_def Let_def LOG_exception_def)

subsection \<open>Rollback\<close>


subsection \<open>Duplicates\<close>

text \<open>
  C5. When the commit of a create or of an update raises an \<^verbatim>\<open>IntegrityError\<close>
  whose text, in lower case, contains \<^verbatim>\<open>duplicate\<close> or \<^verbatim>\<open>unique\<close>, the
  handler rolls the session back and returns 409 with that text. In particular, on an
  engine that reports a violated name constraint with such a text and has no other fault,
  two creates with the same valid name, the name not stored before, give one tag and one
  409.
\<close>

theorem duplicate_name_conflict:
  "(is_duplicate reason \<and> post_schema_load g = Inr v \<and>
    fst (session_commit eng (session_add (from_dict eng v) s))
      = Some (IntegrityError reason c) \<longrightarrow>
    post eng g s =
      (Inr (ErrorResponse 409 (Text reason) None),
       s\<lparr>session := [], needs_rollback := False\<rparr>)) \<and>
   (is_duplicate reason \<and> put_schema_load g = Inr data \<and> query_get s tid = Some t \<and>
    fst (tag_update eng t data s) = Some (IntegrityError reason c) \<longrightarrow>
    put eng tid g s =
      (Inr (ErrorResponse 409 (Text reason) None),
       s\<lparr>session := [], needs_rollback := False\<rparr>)) \<and>
   (post_schema_load g = Inr v \<and> session s = [] \<and> fault eng = None \<and> fault eng' = None \<and>
    is_duplicate (unique_reason eng') \<and> \<not> list_ex (\<lambda>r. name r = v) (rows s) \<longrightarrow>
    post eng g s =
      (Inr (TagResponse (from_dict eng v)),
       s\<lparr>rows := rows s @ [from_dict eng v], session := []\<rparr>) \<and>
    post eng' g (s\<lparr>rows := rows s @ [from_dict eng v], session := []\<rparr>) =
      (Inr (ErrorResponse 409 (Text (unique_reason eng')) None),
       s\<lparr>rows := rows s @ [from_dict eng v], session := [], needs_rollback := False\<rparr>))"
proof -
  have a: "post eng g s =
      (Inr (ErrorResponse 409 (Text reason) None), s\<lparr>session := [], needs_rollback := False\<rparr>)"
    if "is_duplicate reason" and h: "post_schema_load g = Inr v"
      "fst (session_commit eng (session_add (from_dict eng v) s)) = Some (IntegrityError reason c)"
    using post_integrity [OF h] that(1) by (simp add: except_duplicate)
  have b: "put eng tid g s =
      (Inr (ErrorResponse 409 (Text reason) None), s\<lparr>session := [], needs_rollback := False\<rparr>)"
    if d: "is_duplicate reason" and h: "put_schema_load g = Inr data" "query_get s tid = Some t"
      "fst (tag_update eng t data s) = Some (IntegrityError reason c)"
    using put_integrity [OF h] d by (simp add: except_duplicate)
  have c1: "post eng g s =
      (Inr (TagResponse (from_dict eng v)), s\<lparr>rows := rows s @ [from_dict eng v], session := []\<rparr>)"
    if "post_schema_load g = Inr v" "session s = []" "fault eng = None"
      "\<not> list_ex (\<lambda>r. name r = v) (rows s)"
    using that
    by (simp add: post_def session_commit_def session_add_def from_dict_def Let_def)
  have c2: "post eng' g (s\<lparr>rows := rows s @ [from_dict eng v], session := []\<rparr>) =
      (Inr (ErrorResponse 409 (Text (unique_reason eng')) None),
       s\<lparr>rows := rows s @ [from_dict eng v], session := [], needs_rollback := False\<rparr>)"
    if "post_schema_load g = Inr v" "fault eng' = None" "is_duplicate (unique_reason eng')"
    using that
    by (simp add: post_def session_commit_def session_add_def from_dict_def Let_def
        except_duplicate)
  show ?thesis using a b c1 c2 by blast
qed

theorem duplicate_name_conflict_witness:
  "is_duplicate ''UNIQUE constraint failed: tag.name'' \<and>
   post sample_engine (sample_body ''n'') sample_store
     = (Inr (ErrorResponse 409 (Text ''UNIQUE constraint failed: tag.name'') None),
        sample_store) \<and>
   put sample_engine ''tt'' (sample_body ''n'') sample_store
     = (Inr (ErrorResponse 409 (Text ''UNIQUE constraint failed: tag.name'') None),
        sample_store) \<and>
   post sample_engine (sample_body ''db'') sample_store
     = (Inr (TagResponse (from_dict sample_engine ''db'')),
        sample_store\<lparr>rows := rows sample_store @ [from_dict sample_engine ''db'']\<rparr>) \<and>
   post (sample_engine\<lparr>new_id := ''8''\<rparr>) (sample_body ''db'')
        (sample_store\<lparr>rows := rows sample_store @ [from_dict sample_engine ''db'']\<rparr>)
     = (Inr (ErrorResponse 409 (Text ''UNIQUE constraint failed: tag.name'') None),
        sample_store\<lparr>rows := rows sample_store @ [from_dict sample_engine ''db'']\<rparr>)"
proof -
  have d: "is_duplicate ''UNIQUE constraint failed: tag.name''"
    by code_simp
  have l: "post_schema_load (sample_body ''n'') = Inr ''n''"
    "put_schema_load (sample_body ''n'') = Inr (Some ''n'')"
    "post_schema_load (sample_body ''db'') = Inr ''db''"
    by (simp_all add: post_schema_load_def put_schema_load_def deserialize_name_def
        sample_body_def)
  have c: "fst (session_commit sample_engine
                  (session_add (from_dict sample_engine ''n'') sample_store))
      = Some (IntegrityError ''UNIQUE constraint failed: tag.name'' ''gkpj'')"
    by (simp add: session_commit_def session_add_def from_dict_def sample_engine_def
        sample_store_def sample_tag_def)
  have q: "query_get sample_store ''tt'' = Some (sample_tag 1)"
    by (simp add: query_get_def sample_store_def sample_tag_def)
  have u: "fst (tag_update sample_engine (sample_tag 1) (Some ''n'') sample_store)
      = Some (IntegrityError ''UNIQUE constraint failed: tag.name'' ''gkpj'')"
    by (simp add: tag_update_def session_commit_def sample_engine_def sample_store_def
        sample_tag_def Let_def)
  have e: "session sample_store = []" "fault sample_engine = None"
    "fault (sample_engine\<lparr>new_id := ''8''\<rparr>) = None"
    "unique_reason (sample_engine\<lparr>new_id := ''8''\<rparr>) = ''UNIQUE constraint failed: tag.name''"
    "\<not> list_ex (\<lambda>r. name r = ''db'') (rows sample_store)"
    by (simp_all add: sample_store_def sample_engine_def sample_tag_def)
  have st: "sample_store\<lparr>session := [], needs_rollback := False\<rparr> = sample_store"
    "sample_store\<lparr>session := []\<rparr> = sample_store"
    by (simp_all add: sample_store_def)
  note w = duplicate_name_conflict [where reason = "''UNIQUE constraint failed: tag.name''"
      and eng = sample_engine and s = sample_store and c = "''gkpj''" and tid = "''tt''"
      and t = "sample_tag 1" and eng' = "sample_engine\<lparr>new_id := ''8''\<rparr>"]
  from w [where g = "sample_body ''n''" and v = "''n''" and data = "Some ''n''"]
    d l c q u st
  have one: "post sample_engine (sample_body ''n'') sample_store
     = (Inr (ErrorResponse 409 (Text ''UNIQUE constraint failed: tag.name'') None),
        sample_store)"
    "put sample_engine ''tt'' (sample_body ''n'') sample_store
     = (Inr (ErrorResponse 409 (Text ''UNIQUE constraint failed: tag.name'') None),
        sample_store)"
    by simp_all
  from w [where g = "sample_body ''db''" and v = "''db''"] d l e st
  have two: "post sample_engine (sample_body ''db'') sample_store
     = (Inr (TagResponse (from_dict sample_engine ''db'')),
        sample_store\<lparr>rows := rows sample_store @ [from_dict sample_engine ''db'']\<rparr>) \<and>
   post (sample_engine\<lparr>new_id := ''8''\<rparr>) (sample_body ''db'')
        (sample_store\<lparr>rows := rows sample_store @ [from_dict sample_engine ''db'']\<rparr>)
     = (Inr (ErrorResponse 409 (Text ''UNIQUE constraint failed: tag.name'') None),
        sample_store\<lparr>rows := rows sample_store @ [from_dict sample_engine ''db'']\<rparr>)"
    by (simp add: sample_store_def)
  from d one two show ?thesis by blast
qed

subsection \<open>Updates\<close>

text \<open>
  C8. An update of an existing tag whose body has no \<^verbatim>\<open>name\<close> leaves the stored
  rows, and so the tag and its name, as they were, and when the commit succeeds the
  response is the unchanged tag. An update whose \<^verbatim>\<open>name\<close> is the empty string is
  answered with 400 and the store is untouched.
\<close>

theorem omitted_name_unchanged:
  "(g ''name'' = None \<and> query_get s tid = Some t \<and> session s = [] \<longrightarrow>
      rows (snd (put eng tid g s)) = rows s \<and>
      query_get (snd (put eng tid g s)) tid = Some t \<and>
      (fault eng = None \<longrightarrow> put eng tid g s = (Inr (TagResponse t), s))) \<and>
   (g ''name'' = Some (JString []) \<longrightarrow>
      put eng tid g s =
        (Inr (ErrorResponse 400
                (FieldErrors [(''name'', [''Length must be between 1 and 64.''])]) None), s))"
proof -
  have empty: "put eng tid g s =
        (Inr (ErrorResponse 400
                (FieldErrors [(''name'', [''Length must be between 1 and 64.''])]) None), s)"
    if "g ''name'' = Some (JString [])"
    using that by (simp add: put_def put_schema_load_def deserialize_name_def)
  have ok: "put eng tid g s = (Inr (TagResponse t), s)"
    if "g ''name'' = None" "query_get s tid = Some t" "session s = []" "fault eng = None"
    using that
    by (simp add: put_def put_schema_load_def tag_update_def session_commit_def)
  have frame: "rows (snd (put eng tid g s)) = rows s"
    if "g ''name'' = None" "query_get s tid = Some t" "session s = []"
    using that
    by (cases "fault eng"; cases "the (fault eng)")
       (auto simp: put_def put_schema_load_def tag_update_def session_commit_def
          except_IntegrityError_def session_rollback_def LOG_exception_def Let_def)
  have "query_get (snd (put eng tid g s)) tid = Some t"
    if "g ''name'' = None" "query_get s tid = Some t" "session s = []"
    using frame [OF that] that(2) by (simp add: query_get_def)
  with empty ok frame show ?thesis by blast
qed

theorem omitted_name_unchanged_witness:
  "put sample_engine ''t'' Map.empty sample_store = (Inr (TagResponse (sample_tag 0)), sample_store) \<and>
   rows (snd (put sample_engine ''t'' Map.empty sample_store)) = rows sample_store \<and>
   put sample_engine ''t'' (sample_body []) sample_store
     = (Inr (ErrorResponse 400
               (FieldErrors [(''name'', [''Length must be between 1 and 64.''])]) None),
        sample_store)"
proof -
  have q: "query_get sample_store ''t'' = Some (sample_tag 0)"
    by (simp add: query_get_def sample_store_def sample_tag_def)
  have e: "session sample_store = []" "fault sample_engine = None"
    by (simp_all add: sample_store_def sample_engine_def)
  have b: "sample_body [] ''name'' = Some (JString [])"
    by (simp add: sample_body_def)
  from omitted_name_unchanged [where g = Map.empty and s = sample_store and tid = "''t''"
      and t = "sample_tag 0" and eng = sample_engine]
    omitted_name_unchanged [where g = "sample_body []" and s = sample_store and tid = "''t''"
      and eng = sample_engine] q e b
  show ?thesis by simp
qed

text \<open>
  C10. An update whose body fails the schema is answered with 400 and the schema's errors,
  whatever the id: the body is validated before the tag is looked up, so an unknown id
  does not turn the answer into 404.
\<close>

theorem validation_before_lookup:
  assumes "put_schema_load g = Inl errors"
  shows "put eng tid g s = (Inr (ErrorResponse 400 (FieldErrors errors) None), s) \<and>
         (query_get s tid = None \<longrightarrow>
            fst (put eng tid g s)
              \<noteq> Inr (ErrorResponse 404 (PercentR ''Tag %r not found'' tid) None))"
  using assms by (simp add: put_def)

theorem validation_before_lookup_witness:
  "put_schema_load (sample_body [])
     = Inl [(''name'', [''Length must be between 1 and 64.''])] \<and>
   query_get sample_store ''zzz'' = None \<and>
   put sample_engine ''zzz'' (sample_body []) sample_store
     = (Inr (ErrorResponse 400
               (FieldErrors [(''name'', [''Length must be between 1 and 64.''])]) None),
        sample_store)"
proof -
  have l: "put_schema_load (sample_body [])
     = Inl [(''name'', [''Length must be between 1 and 64.''])]"
    by (simp add: put_schema_load_def deserialize_name_def sample_body_def)
  have q: "query_get sample_store ''zzz'' = None"
    by (simp add: query_get_def sample_store_def sample_tag_def)
  from validation_before_lookup [OF l, of sample_engine "''zzz''" sample_store] l q
  show ?thesis by simp
qed

end
